theory Spec2Isabelle
  imports Complex_Main
begin

section \<open>Python numerics\<close>

text \<open>
  Python floats are modelled as real numbers: every operation is exact, there is no
  overflow, no infinity and no NaN. The integer conversions and the roundings of the
  source are written out below.
\<close>

text \<open>\<^verbatim>\<open>round(x)\<close> on a float: nearest integer, a tie goes to the even neighbour.\<close>

definition round_half_even :: "real \<Rightarrow> int" where
  "round_half_even x =
     (let f = \<lfloor>x\<rfloor>; d = x - of_int f
      in if d < 1 / 2 then f else if 1 / 2 < d then f + 1 else if even f then f else f + 1)"

text \<open>\<^verbatim>\<open>round(x, ndigits)\<close>: nearest multiple of \<open>10 ^ -ndigits\<close>, ties to even.\<close>

definition py_round :: "nat \<Rightarrow> real \<Rightarrow> real" where
  "py_round ndigits x = of_int (round_half_even (x * 10 ^ ndigits)) / 10 ^ ndigits"

text \<open>\<^verbatim>\<open>int(x)\<close> on a float truncates towards zero.\<close>

definition py_int :: "real \<Rightarrow> int" where
  "py_int x = (if 0 \<le> x then \<lfloor>x\<rfloor> else \<lceil>x\<rceil>)"

section \<open>The simulator (smartwatch\_simulator.py)\<close>

record datetime =
  year :: nat
  month :: nat
  day :: nat
  hour :: nat
  minute :: nat
  second :: nat

definition INTERVAL_MINUTES :: real where
  "INTERVAL_MINUTES = 1"

record HealthSimulator =
  user_id :: string
  start_time :: datetime
  base_resting_hr :: real
  base_hrv :: real

text \<open>The constructor; the clock reading \<^verbatim>\<open>datetime.now()\<close> is a parameter.\<close>

definition init :: "string \<Rightarrow> datetime \<Rightarrow> HealthSimulator" where
  "init uid now = \<lparr>user_id = uid, start_time = now, base_resting_hr = 60, base_hrv = 50\<rparr>"

record factors =
  hr_multiplier :: real
  hrv_multiplier :: real
  activity :: real
  is_sleeping :: bool

definition get_time_of_day_factor :: "datetime \<Rightarrow> factors" where
  "get_time_of_day_factor current_time =
     (let h = hour current_time;
          m = minute current_time;
          time_decimal = real h + real m / 60
      in if 23 \<le> h \<or> h < 7 then
           \<lparr>hr_multiplier = 0.75, hrv_multiplier = 1.3, activity = 0, is_sleeping = True\<rparr>
         else if 7 \<le> h \<and> h < 9 then
           (let wake_progress = (time_decimal - 7) / 2
            in \<lparr>hr_multiplier = 0.75 + 0.25 * wake_progress,
                hrv_multiplier = 1.3 - 0.3 * wake_progress,
                activity = wake_progress * 0.3,
                is_sleeping = False\<rparr>)
         else if 9 \<le> h \<and> h < 12 then
           \<lparr>hr_multiplier = 1.1, hrv_multiplier = 0.95, activity = 0.6, is_sleeping = False\<rparr>
         else if 12 \<le> h \<and> h < 14 then
           \<lparr>hr_multiplier = 0.95, hrv_multiplier = 1.05, activity = 0.3, is_sleeping = False\<rparr>
         else if 14 \<le> h \<and> h < 18 then
           \<lparr>hr_multiplier = 1.15, hrv_multiplier = 0.85, activity = 0.8, is_sleeping = False\<rparr>
         else if 18 \<le> h \<and> h < 21 then
           (let wind_down = (time_decimal - 18) / 3
            in \<lparr>hr_multiplier = 1.1 - 0.2 * wind_down,
                hrv_multiplier = 0.9 + 0.2 * wind_down,
                activity = 0.5 - 0.3 * wind_down,
                is_sleeping = False\<rparr>)
         else
           \<lparr>hr_multiplier = 0.85, hrv_multiplier = 1.15, activity = 0.1, is_sleeping = False\<rparr>)"

text \<open>
  The random draws of one call of \<^verbatim>\<open>generate_metrics\<close>, in the order the source makes
  them: three \<^verbatim>\<open>random.gauss\<close> draws, one \<^verbatim>\<open>random.uniform(100, 300)\<close>, one more
  \<^verbatim>\<open>random.gauss\<close>.
\<close>

record metric_draws =
  gauss_hr :: real
  gauss_resting_hr :: real
  gauss_hrv :: real
  uniform_steps :: real
  gauss_spo2 :: real

text \<open>
  The dictionary \<^verbatim>\<open>generate_metrics\<close> returns, one field per key. The value under
  \<^verbatim>\<open>'spo2'\<close> is the one the data contract allows to be \<^verbatim>\<open>None\<close>.
\<close>

record Metrics =
  userId :: string
  timestamp :: datetime
  heartRate :: real
  restingHeartRate :: real
  hrv :: real
  steps :: int
  calories :: real
  activeMinutes :: int
  spo2 :: "real option"
  is_sleeping :: bool

definition generate_metrics :: "HealthSimulator \<Rightarrow> datetime \<Rightarrow> metric_draws \<Rightarrow> Metrics" where
  "generate_metrics self current_time rnd =
     (let fs = get_time_of_day_factor current_time;
          hr = base_resting_hr self * hr_multiplier fs + gauss_hr rnd;
          resting_hr = base_resting_hr self + gauss_resting_hr rnd;
          hrv0 = base_hrv self * hrv_multiplier fs + gauss_hrv rnd;
          steps_per_interval = py_int (activity fs * uniform_steps rnd);
          basal_cal_per_min = 1.2;
          active_cal_per_min = activity fs * 5;
          calories0 = (basal_cal_per_min + active_cal_per_min) * INTERVAL_MINUTES;
          active_minutes = py_int (activity fs * INTERVAL_MINUTES);
          spo2_raw = 97 + gauss_spo2 rnd;
          spo2_clamped = max 94 (min 100 spo2_raw)
      in \<lparr>userId = user_id self,
          timestamp = current_time,
          heartRate = py_round 1 (max 45 (min 120 hr)),
          restingHeartRate = py_round 1 (max 50 (min 75 resting_hr)),
          hrv = py_round 1 (max 20 (min 100 hrv0)),
          steps = steps_per_interval,
          calories = py_round 1 calories0,
          activeMinutes = active_minutes,
          spo2 = Some (py_round 1 spo2_clamped),
          is_sleeping = factors.is_sleeping fs\<rparr>)"


record SleepDoc =
  userId :: string
  date :: datetime
  durationHours :: real
  qualityScore :: real
  deepSleepMinutes :: int
  remSleepMinutes :: int
  lightSleepMinutes :: int


section \<open>The health analysis endpoint (main.py)\<close>

record HealthMetric =
  timestamp :: string
  heartRate :: real
  restingHeartRate :: real
  hrv :: real
  steps :: int
  calories :: real
  activeMinutes :: int
  spo2 :: "real option"

record SleepData =
  durationHours :: real
  qualityScore :: real
  deepSleepMinutes :: int
  remSleepMinutes :: int
  lightSleepMinutes :: int

record HealthAnalysisRequest =
  userId :: string
  date :: string
  metrics :: "HealthMetric list"
  sleepData :: "SleepData option"
  userProfile :: "(string \<times> string) list option"

datatype error = HTTPException nat string

text \<open>
  The four alert texts of \<^verbatim>\<open>analyze_health\<close>. The two that embed a number formatted
  with \<^verbatim>\<open>:.1f\<close> carry that number.
\<close>

datatype alert =
  HRVDropped
| SleepDurationLow real
| LowBloodOxygen real
| VeryLowActivity

text \<open>
  The local variables of \<^verbatim>\<open>analyze_health\<close> once the four alert rules have run.
\<close>

record analysis =
  median_hrv :: real
  avg_resting_hr :: real
  avg_spo2 :: "real option"
  total_steps :: int
  total_calories :: real
  total_active_minutes :: int
  hrv_variance :: real
  stress_level :: real
  alerts :: "alert list"

text \<open>Truth value of a float-or-None in a condition: \<^verbatim>\<open>None\<close> and \<^verbatim>\<open>0.0\<close> are false.\<close>

definition truthy :: "real option \<Rightarrow> bool" where
  "truthy v = (case v of None \<Rightarrow> False | Some x \<Rightarrow> x \<noteq> 0)"

definition hrv_drop_alert :: "real list \<Rightarrow> alert list" where
  "hrv_drop_alert hrv_values =
     (let n = length hrv_values
      in if 1 < n then
           (let hrv_baseline = sum_list (take (n div 2) hrv_values) / real (n div 2);
                hrv_recent = sum_list (drop (n div 2) hrv_values) / real (n - n div 2)
            in if 0 < hrv_baseline \<and> 0.20 < (hrv_baseline - hrv_recent) / hrv_baseline
               then [HRVDropped] else [])
         else [])"

definition sleep_alert :: "SleepData option \<Rightarrow> alert list" where
  "sleep_alert sd =
     (case sd of
        None \<Rightarrow> []
      | Some s \<Rightarrow> if SleepData.durationHours s < 6
                 then [SleepDurationLow (SleepData.durationHours s)] else [])"

definition spo2_alert :: "real option \<Rightarrow> alert list" where
  "spo2_alert avg = (if truthy avg \<and> the avg < 94 then [LowBloodOxygen (the avg)] else [])"

definition sedentary_alert :: "int \<Rightarrow> alert list" where
  "sedentary_alert active =
     (let sedentary_hours = (24 * 60 - real_of_int active) / 60
      in if 22 < sedentary_hours then [VeryLowActivity] else [])"

text \<open>
  The aggregation block of \<^verbatim>\<open>analyze_health\<close>: the emptiness check, the daily
  statistics and the alert rules. The prompt sent to the language model and the relay of
  its answer, which follow in the source, are not part of the model.
\<close>

definition analyze_health :: "HealthAnalysisRequest \<Rightarrow> error + analysis" where
  "analyze_health request =
     (if metrics request = [] then Inl (HTTPException 400 ''No health metrics provided'')
      else
        (let hrv_values = map HealthMetric.hrv (metrics request);
             resting_hr_values = map HealthMetric.restingHeartRate (metrics request);
             spo2_values = List.map_filter HealthMetric.spo2 (metrics request);
             med = sort hrv_values ! (length hrv_values div 2);
             avg_rhr = sum_list resting_hr_values / real (length resting_hr_values);
             avg_s = (if spo2_values \<noteq> []
                      then Some (sum_list spo2_values / real (length spo2_values)) else None);
             tot_steps = sum_list (map HealthMetric.steps (metrics request));
             tot_calories = sum_list (map HealthMetric.calories (metrics request));
             tot_active = sum_list (map HealthMetric.activeMinutes (metrics request));
             variance = sum_list (map (\<lambda>x. (x - med) ^ 2) hrv_values) / real (length hrv_values);
             stress = min 10 (variance / 10)
         in Inr \<lparr>median_hrv = med,
                 avg_resting_hr = avg_rhr,
                 avg_spo2 = avg_s,
                 total_steps = tot_steps,
                 total_calories = tot_calories,
                 total_active_minutes = tot_active,
                 hrv_variance = variance,
                 stress_level = stress,
                 alerts = hrv_drop_alert hrv_values @ sleep_alert (sleepData request)
                          @ spo2_alert avg_s @ sedentary_alert tot_active\<rparr>))"

text \<open>The \<^verbatim>\<open>dailyStats\<close> entry of the response, built from the local variables.\<close>

record DailyStats =
  avgRestingHR :: real
  medianHRV :: real
  totalSteps :: int
  totalCalories :: real
  totalActiveMinutes :: int
  avgSpO2 :: "real option"
  stressLevel :: real

definition dailyStats :: "analysis \<Rightarrow> DailyStats" where
  "dailyStats a =
     \<lparr>avgRestingHR = py_round 1 (avg_resting_hr a),
      medianHRV = py_round 1 (median_hrv a),
      totalSteps = total_steps a,
      totalCalories = py_round 1 (total_calories a),
      totalActiveMinutes = total_active_minutes a,
      avgSpO2 = (if truthy (avg_spo2 a) then Some (py_round 1 (the (avg_spo2 a))) else None),
      stressLevel = py_round 1 (stress_level a)\<rparr>"

section \<open>Notions of the specification\<close>

text \<open>
  The definitions of this section follow the words of the specification, not the source;
  the theorems below compare the source's functions with them.
\<close>

definition mean :: "real list \<Rightarrow> real" where
  "mean xs = sum_list xs / real (length xs)"

text \<open>The mean of the squared deviations of the values from a centre \<open>c\<close>.\<close>

definition mean_squared_deviation :: "real \<Rightarrow> real list \<Rightarrow> real" where
  "mean_squared_deviation c xs = mean (map (\<lambda>x. (x - c) ^ 2) xs)"

text \<open>
  The HRV-drop condition as the specification words it: the mean of the first
  \<open>floor(n/2)\<close> values minus the mean of the remaining ones exceeds 20% of the
  first-half mean.
\<close>

definition spec_hrv_drop :: "real list \<Rightarrow> bool" where
  "spec_hrv_drop hs =
     (let k = length hs div 2; first_half = take k hs; second_half = drop k hs
      in 0.20 * mean first_half < mean first_half - mean second_half)"

text \<open>Linear interpolation from \<open>a\<close> to \<open>b\<close> at progress \<open>p\<close>.\<close>

definition lerp :: "real \<Rightarrow> real \<Rightarrow> real \<Rightarrow> real" where
  "lerp a b p = a + (b - a) * p"

text \<open>
  The seven-phase table of the specification, read at \<open>t\<close> minutes after midnight:
  each phase closed at its start and open at its end, Sleep wrapping past midnight, and
  the progress inside Wake-up and Wind-down being the elapsed fraction of the phase's span.
\<close>

definition spec_phase_table :: "nat \<Rightarrow> nat \<Rightarrow> factors" where
  "spec_phase_table h m =
     (let t = 60 * h + m
      in if 23 * 60 \<le> t \<or> t < 7 * 60 then
           \<lparr>hr_multiplier = 0.75, hrv_multiplier = 1.30, activity = 0, is_sleeping = True\<rparr>
         else if t < 9 * 60 then
           (let p = (real t - 7 * 60) / (9 * 60 - 7 * 60)
            in \<lparr>hr_multiplier = lerp 0.75 1.00 p, hrv_multiplier = lerp 1.30 1.00 p,
                activity = lerp 0 0.3 p, is_sleeping = False\<rparr>)
         else if t < 12 * 60 then
           \<lparr>hr_multiplier = 1.10, hrv_multiplier = 0.95, activity = 0.6, is_sleeping = False\<rparr>
         else if t < 14 * 60 then
           \<lparr>hr_multiplier = 0.95, hrv_multiplier = 1.05, activity = 0.3, is_sleeping = False\<rparr>
         else if t < 18 * 60 then
           \<lparr>hr_multiplier = 1.15, hrv_multiplier = 0.85, activity = 0.8, is_sleeping = False\<rparr>
         else if t < 21 * 60 then
           (let p = (real t - 18 * 60) / (21 * 60 - 18 * 60)
            in \<lparr>hr_multiplier = lerp 1.10 0.90 p, hrv_multiplier = lerp 0.90 1.10 p,
                activity = lerp 0.5 0.2 p, is_sleeping = False\<rparr>)
         else
           \<lparr>hr_multiplier = 0.85, hrv_multiplier = 1.15, activity = 0.1, is_sleeping = False\<rparr>)"


section \<open>Concrete inputs\<close>

definition clock :: "nat \<Rightarrow> nat \<Rightarrow> datetime" where
  "clock h m = \<lparr>year = 2025, month = 1, day = 15, hour = h, minute = m, second = 0\<rparr>"

definition no_noise :: metric_draws where
  "no_noise = \<lparr>gauss_hr = 0, gauss_resting_hr = 0, gauss_hrv = 0, uniform_steps = 200,
                gauss_spo2 = 0\<rparr>"


text \<open>A request sample with the given hrv, activeMinutes and spo2.\<close>

definition sample :: "real \<Rightarrow> int \<Rightarrow> real option \<Rightarrow> HealthMetric" where
  "sample h am s = \<lparr>timestamp = ''2025-01-15T10:00:00'', heartRate = 70, restingHeartRate = 60,
     hrv = h, steps = 100, calories = 5, activeMinutes = am, spo2 = s\<rparr>"

definition batch :: "HealthMetric list \<Rightarrow> HealthAnalysisRequest" where
  "batch ms = \<lparr>userId = ''u1'', date = ''2025-01-15'', metrics = ms, sleepData = None,
               userProfile = None\<rparr>"

section \<open>Rounding\<close>


lemma round_half_even_ge: "real_of_int k \<le> x \<Longrightarrow> k \<le> round_half_even x"
proof -
  assume "real_of_int k \<le> x"
  then have "k \<le> \<lfloor>x\<rfloor>" by (simp add: le_floor_iff)
  then show ?thesis by (auto simp: round_half_even_def Let_def)
qed

lemma round_half_even_le: "x \<le> real_of_int k \<Longrightarrow> round_half_even x \<le> k"
proof -
  assume a: "x \<le> real_of_int k"
  show ?thesis
  proof (cases "x = real_of_int k")
    case True
    then show ?thesis by (simp add: round_half_even_def Let_def)
  next
    case False
    with a have "x < real_of_int k" by simp
    then have "\<lfloor>x\<rfloor> < k" by (simp add: floor_less_iff)
    then show ?thesis by (auto simp: round_half_even_def Let_def)
  qed
qed

text \<open>Rounding to one decimal never leaves an interval whose ends are multiples of 0.1.\<close>

lemma py_round_1_bounds:
  assumes "real_of_int lo / 10 \<le> x" "x \<le> real_of_int hi / 10"
  shows "real_of_int lo / 10 \<le> py_round 1 x \<and> py_round 1 x \<le> real_of_int hi / 10"
proof -
  have "real_of_int lo \<le> x * 10" "x * 10 \<le> real_of_int hi" using assms by simp_all
  then have "lo \<le> round_half_even (x * 10)" "round_half_even (x * 10) \<le> hi"
    by (simp_all add: round_half_even_ge round_half_even_le)
  then have "real_of_int lo \<le> real_of_int (round_half_even (x * 10))"
    "real_of_int (round_half_even (x * 10)) \<le> real_of_int hi" by linarith+
  then show ?thesis by (simp add: py_round_def divide_right_mono)
qed

lemma clamp_round:
  assumes "real_of_int lo \<le> real_of_int hi"
  shows "real_of_int lo \<le> py_round 1 (max (real_of_int lo) (min (real_of_int hi) x))
       \<and> py_round 1 (max (real_of_int lo) (min (real_of_int hi) x)) \<le> real_of_int hi"
  using py_round_1_bounds[of "lo * 10" "max (real_of_int lo) (min (real_of_int hi) x)" "hi * 10"] assms
  by simp

section \<open>The simulator's samples\<close>

text \<open>
  Claim C8. Whatever the clock time, the simulator's baselines and the five random draws,
  the sample returned by \<^verbatim>\<open>generate_metrics\<close> has heartRate in [45, 120],
  restingHeartRate in [50, 75], hrv in [20, 100] and spo2 in [94, 100]: the clamps hold
  for every value of the noise, and the rounding to one decimal keeps them.
\<close>

theorem generate_metrics_clamps:
  "45 \<le> Metrics.heartRate (generate_metrics self current_time rnd) \<and>
   Metrics.heartRate (generate_metrics self current_time rnd) \<le> 120 \<and>
   50 \<le> Metrics.restingHeartRate (generate_metrics self current_time rnd) \<and>
   Metrics.restingHeartRate (generate_metrics self current_time rnd) \<le> 75 \<and>
   20 \<le> Metrics.hrv (generate_metrics self current_time rnd) \<and>
   Metrics.hrv (generate_metrics self current_time rnd) \<le> 100 \<and>
   (\<exists>v. Metrics.spo2 (generate_metrics self current_time rnd) = Some v \<and> 94 \<le> v \<and> v \<le> 100)"
  using clamp_round[of 45 120] clamp_round[of 50 75] clamp_round[of 20 100] clamp_round[of 94 100]
  by (simp add: generate_metrics_def Let_def)

lemma generate_metrics_spo2:
  "\<exists>v. Metrics.spo2 (generate_metrics self current_time rnd) = Some v \<and> 94 \<le> v \<and> v \<le> 100"
  using clamp_round[of 94 100] by (simp add: generate_metrics_def Let_def)

section \<open>The time-of-day factors\<close>

text \<open>
  Claim C7. For every clock time (any hour, a minute below 60; the source reads the hour
  and the minute only) \<^verbatim>\<open>get_time_of_day_factor\<close> returns the values of the seven-phase
  table for hr\_multiplier, hrv\_multiplier, activity and is\_sleeping: phases closed at
  their start and open at their end, Sleep from 23:00 wrapping to 07:00, linear
  interpolation by the elapsed fraction of the span inside Wake-up and Wind-down. At any
  minute of hour 3 the result is sleeping with activity 0, and at any minute of hour 15
  the activity is 0.8.
\<close>

theorem time_of_day_table:
  assumes "minute current_time < 60"
  shows "get_time_of_day_factor current_time
           = spec_phase_table (hour current_time) (minute current_time)
       \<and> factors.is_sleeping (get_time_of_day_factor (current_time\<lparr>hour := 3\<rparr>))
       \<and> activity (get_time_of_day_factor (current_time\<lparr>hour := 3\<rparr>)) = 0
       \<and> activity (get_time_of_day_factor (current_time\<lparr>hour := 15\<rparr>)) = 0.8"
proof -
  define h where "h = hour current_time"
  define m where "m = minute current_time"
  have m: "m < 60" using assms by (simp add: m_def)
  consider (sleep) "23 \<le> h \<or> h < 7" | (wake) "7 \<le> h" "h < 9" | (morning) "9 \<le> h" "h < 12"
    | (lunch) "12 \<le> h" "h < 14" | (afternoon) "14 \<le> h" "h < 18"
    | (wind) "18 \<le> h" "h < 21" | (pre) "21 \<le> h" "h < 23"
    by linarith
  then have "get_time_of_day_factor current_time = spec_phase_table h m"
  proof cases
    case sleep
    then have "23 * 60 \<le> 60 * h + m \<or> 60 * h + m < 7 * 60" using m by linarith
    with sleep show ?thesis
      by (simp add: get_time_of_day_factor_def spec_phase_table_def Let_def h_def m_def)
  next
    case wake
    then have t: "\<not> 23 * 60 \<le> 60 * h + m" "\<not> 60 * h + m < 7 * 60" "60 * h + m < 9 * 60"
      using m by linarith+
    have p: "(real h + real m / 60 - 7) / 2 = (real (60 * h + m) - 7 * 60) / (9 * 60 - 7 * 60)"
      by (simp add: field_simps)
    have "get_time_of_day_factor current_time =
        \<lparr>hr_multiplier = 0.75 + 0.25 * ((real h + real m / 60 - 7) / 2),
         hrv_multiplier = 1.3 - 0.3 * ((real h + real m / 60 - 7) / 2),
         activity = (real h + real m / 60 - 7) / 2 * 0.3, is_sleeping = False\<rparr>"
      using wake by (simp add: get_time_of_day_factor_def Let_def h_def m_def)
    moreover have "spec_phase_table h m =
        \<lparr>hr_multiplier = lerp 0.75 1.00 ((real (60 * h + m) - 7 * 60) / (9 * 60 - 7 * 60)),
         hrv_multiplier = lerp 1.30 1.00 ((real (60 * h + m) - 7 * 60) / (9 * 60 - 7 * 60)),
         activity = lerp 0 0.3 ((real (60 * h + m) - 7 * 60) / (9 * 60 - 7 * 60)),
         is_sleeping = False\<rparr>"
      using t by (simp add: spec_phase_table_def Let_def)
    ultimately show ?thesis unfolding p by (simp add: lerp_def)
  next
    case morning
    then have "\<not> 23 * 60 \<le> 60 * h + m" "\<not> 60 * h + m < 7 * 60" "\<not> 60 * h + m < 9 * 60"
      "60 * h + m < 12 * 60"
      using m by linarith+
    with morning show ?thesis
      by (simp add: get_time_of_day_factor_def spec_phase_table_def Let_def h_def m_def)
  next
    case lunch
    then have "\<not> 23 * 60 \<le> 60 * h + m" "\<not> 60 * h + m < 7 * 60" "\<not> 60 * h + m < 9 * 60"
      "\<not> 60 * h + m < 12 * 60" "60 * h + m < 14 * 60"
      using m by linarith+
    with lunch show ?thesis
      by (simp add: get_time_of_day_factor_def spec_phase_table_def Let_def h_def m_def)
  next
    case afternoon
    then have "\<not> 23 * 60 \<le> 60 * h + m" "\<not> 60 * h + m < 7 * 60" "\<not> 60 * h + m < 9 * 60"
      "\<not> 60 * h + m < 12 * 60" "\<not> 60 * h + m < 14 * 60" "60 * h + m < 18 * 60"
      using m by linarith+
    with afternoon show ?thesis
      by (simp add: get_time_of_day_factor_def spec_phase_table_def Let_def h_def m_def)
  next
    case wind
    then have t: "\<not> 23 * 60 \<le> 60 * h + m" "\<not> 60 * h + m < 7 * 60" "\<not> 60 * h + m < 9 * 60"
      "\<not> 60 * h + m < 12 * 60" "\<not> 60 * h + m < 14 * 60" "\<not> 60 * h + m < 18 * 60"
      "60 * h + m < 21 * 60"
      using m by linarith+
    have p: "(real h + real m / 60 - 18) / 3
              = (real (60 * h + m) - 18 * 60) / (21 * 60 - 18 * 60)"
      by (simp add: field_simps)
    have "get_time_of_day_factor current_time =
        \<lparr>hr_multiplier = 1.1 - 0.2 * ((real h + real m / 60 - 18) / 3),
         hrv_multiplier = 0.9 + 0.2 * ((real h + real m / 60 - 18) / 3),
         activity = 0.5 - 0.3 * ((real h + real m / 60 - 18) / 3), is_sleeping = False\<rparr>"
      using wind by (simp add: get_time_of_day_factor_def Let_def h_def m_def)
    moreover have "spec_phase_table h m =
        \<lparr>hr_multiplier = lerp 1.10 0.90 ((real (60 * h + m) - 18 * 60) / (21 * 60 - 18 * 60)),
         hrv_multiplier = lerp 0.90 1.10 ((real (60 * h + m) - 18 * 60) / (21 * 60 - 18 * 60)),
         activity = lerp 0.5 0.2 ((real (60 * h + m) - 18 * 60) / (21 * 60 - 18 * 60)),
         is_sleeping = False\<rparr>"
      using t by (simp add: spec_phase_table_def Let_def)
    ultimately show ?thesis unfolding p by (simp add: lerp_def)
  next
    case pre
    then have "\<not> 23 * 60 \<le> 60 * h + m" "\<not> 60 * h + m < 7 * 60" "\<not> 60 * h + m < 9 * 60"
      "\<not> 60 * h + m < 12 * 60" "\<not> 60 * h + m < 14 * 60" "\<not> 60 * h + m < 18 * 60"
      "\<not> 60 * h + m < 21 * 60"
      using m by linarith+
    with pre show ?thesis
      by (simp add: get_time_of_day_factor_def spec_phase_table_def Let_def h_def m_def)
  qed
  then show ?thesis by (simp add: get_time_of_day_factor_def Let_def h_def m_def)
qed

theorem time_of_day_table_witness:
  "minute (clock 8 30) < 60
   \<and> get_time_of_day_factor (clock 8 30) =
       \<lparr>hr_multiplier = 0.9375, hrv_multiplier = 1.075, activity = 0.225, is_sleeping = False\<rparr>
   \<and> spec_phase_table 8 30 =
       \<lparr>hr_multiplier = 0.9375, hrv_multiplier = 1.075, activity = 0.225, is_sleeping = False\<rparr>
   \<and> minute (clock 19 30) < 60
   \<and> get_time_of_day_factor (clock 19 30) =
       \<lparr>hr_multiplier = 1, hrv_multiplier = 1, activity = 0.35, is_sleeping = False\<rparr>
   \<and> factors.is_sleeping (get_time_of_day_factor (clock 3 0))
   \<and> activity (get_time_of_day_factor (clock 3 0)) = 0
   \<and> activity (get_time_of_day_factor (clock 15 0)) = 0.8"
  using time_of_day_table[of "clock 8 30"] time_of_day_table[of "clock 19 30"]
    time_of_day_table[of "clock 3 0"] time_of_day_table[of "clock 15 0"]
  by (simp add: clock_def spec_phase_table_def lerp_def)

section \<open>The sleep summary\<close>









section \<open>The daily statistics\<close>

lemmas analyze_health_eval = analyze_health_def hrv_drop_alert_def sleep_alert_def spo2_alert_def
  sedentary_alert_def truthy_def List.map_filter_def Let_def batch_def sample_def

text \<open>
  Claim C1. For every non-empty batch the analysis succeeds and its median HRV is the
  element at index \<open>floor(n/2)\<close> of the HRV values sorted ascending, the upper-middle
  element for even \<open>n\<close>; the response reports this value rounded to one decimal.
\<close>

theorem medianHRV_upper_middle:
  assumes "metrics request \<noteq> []"
  shows "map_sum id median_hrv (analyze_health request) =
           Inr (sort (map HealthMetric.hrv (metrics request)) ! (length (metrics request) div 2))
       \<and> map_sum id (medianHRV \<circ> dailyStats) (analyze_health request) =
           Inr (py_round 1
                 (sort (map HealthMetric.hrv (metrics request)) ! (length (metrics request) div 2)))"
  using assms by (simp add: analyze_health_def Let_def dailyStats_def)

text \<open>For the four values 40, 10, 30, 20 the median is 30, not the textbook 25.\<close>

theorem medianHRV_upper_middle_witness:
  "metrics (batch [sample 40 0 None, sample 10 0 None, sample 30 0 None, sample 20 0 None]) \<noteq> []
   \<and> map_sum id median_hrv (analyze_health
        (batch [sample 40 0 None, sample 10 0 None, sample 30 0 None, sample 20 0 None])) = Inr 30"
  using medianHRV_upper_middle
    [of "batch [sample 40 0 None, sample 10 0 None, sample 30 0 None, sample 20 0 None]"]
  by (simp add: batch_def sample_def)

lemma mean_squared_deviation_nonneg: "0 \<le> mean_squared_deviation c xs"
  unfolding mean_squared_deviation_def mean_def
  by (intro divide_nonneg_nonneg sum_list_nonneg) auto

lemma py_round_1_unit: "0 \<le> x \<Longrightarrow> x \<le> 10 \<Longrightarrow> 0 \<le> py_round 1 x \<and> py_round 1 x \<le> 10"
  using py_round_1_bounds[of 0 x 100] by simp

text \<open>
  Claim C2. For every non-empty batch the stress level is \<open>min(10, v/10)\<close>, where \<open>v\<close> is
  the mean of the squared deviations of the HRV values from the median HRV of claim C1
  (not from their arithmetic mean); it lies between 0 and 10, and so does the value the
  response reports.
\<close>

theorem stressLevel_formula_bounds:
  assumes "metrics request \<noteq> []"
  shows "map_sum id stress_level (analyze_health request) =
           Inr (min 10 (mean_squared_deviation
                  (sort (map HealthMetric.hrv (metrics request)) ! (length (metrics request) div 2))
                  (map HealthMetric.hrv (metrics request)) / 10))
       \<and> map_sum id (\<lambda>a. 0 \<le> stress_level a \<and> stress_level a \<le> 10) (analyze_health request)
           = Inr True
       \<and> map_sum id (\<lambda>a. 0 \<le> stressLevel (dailyStats a) \<and> stressLevel (dailyStats a) \<le> 10)
           (analyze_health request) = Inr True"
proof -
  let ?hs = "map HealthMetric.hrv (metrics request)"
  let ?v = "mean_squared_deviation (sort ?hs ! (length (metrics request) div 2)) ?hs"
  have s: "map_sum id stress_level (analyze_health request) = Inr (min 10 (?v / 10))"
    using assms by (simp add: analyze_health_def Let_def mean_squared_deviation_def mean_def)
  have b: "0 \<le> min 10 (?v / 10)" "min 10 (?v / 10) \<le> 10"
    using mean_squared_deviation_nonneg[of "sort ?hs ! (length (metrics request) div 2)" ?hs]
    by simp_all
  obtain a where a: "analyze_health request = Inr a"
    using assms by (auto simp: analyze_health_def Let_def)
  with s have sa: "stress_level a = min 10 (?v / 10)" by simp
  have "0 \<le> stressLevel (dailyStats a) \<and> stressLevel (dailyStats a) \<le> 10"
    using py_round_1_unit[OF b] by (simp add: dailyStats_def sa)
  with s b a sa show ?thesis by simp
qed

theorem stressLevel_formula_bounds_witness:
  "metrics (batch [sample 40 0 None, sample 10 0 None, sample 30 0 None, sample 20 0 None]) \<noteq> []
   \<and> map_sum id stress_level (analyze_health
        (batch [sample 40 0 None, sample 10 0 None, sample 30 0 None, sample 20 0 None])) = Inr 10
   \<and> mean_squared_deviation 30 [40, 10, 30, 20] = 150
   \<and> metrics (batch [sample 50 0 None, sample 52 0 None, sample 51 0 None]) \<noteq> []
   \<and> map_sum id stress_level (analyze_health
        (batch [sample 50 0 None, sample 52 0 None, sample 51 0 None])) = Inr (1 / 15)"
  using stressLevel_formula_bounds
    [of "batch [sample 40 0 None, sample 10 0 None, sample 30 0 None, sample 20 0 None]"]
    stressLevel_formula_bounds
    [of "batch [sample 50 0 None, sample 52 0 None, sample 51 0 None]"]
  by (simp add: batch_def sample_def mean_squared_deviation_def mean_def)



section \<open>The alert rules\<close>

lemma HRVDropped_elsewhere [simp]:
  "HRVDropped \<notin> set (sleep_alert sd)" "HRVDropped \<notin> set (spo2_alert av)"
  "HRVDropped \<notin> set (sedentary_alert t)"
  by (auto simp: sleep_alert_def spo2_alert_def sedentary_alert_def Let_def split: option.splits)

lemma VeryLowActivity_elsewhere [simp]:
  "VeryLowActivity \<notin> set (sleep_alert sd)" "VeryLowActivity \<notin> set (spo2_alert av)"
  "VeryLowActivity \<notin> set (hrv_drop_alert hs)"
  by (auto simp: sleep_alert_def spo2_alert_def hrv_drop_alert_def Let_def split: option.splits)

lemma LowBloodOxygen_elsewhere [simp]:
  "LowBloodOxygen v \<notin> set (sleep_alert sd)" "LowBloodOxygen v \<notin> set (sedentary_alert t)"
  "LowBloodOxygen v \<notin> set (hrv_drop_alert hs)"
  by (auto simp: sleep_alert_def sedentary_alert_def hrv_drop_alert_def Let_def split: option.splits)

text \<open>
  The HRV-drop rule of the source: more than one value, a strictly positive first-half
  mean, and a drop of more than 20% of it.
\<close>

lemma hrv_drop_alert_iff:
  "HRVDropped \<in> set (hrv_drop_alert hs) \<longleftrightarrow>
     1 < length hs \<and> 0 < mean (take (length hs div 2) hs) \<and> spec_hrv_drop hs"
proof (cases "1 < length hs")
  case False
  then show ?thesis by (simp add: hrv_drop_alert_def)
next
  case True
  define b where "b = mean (take (length hs div 2) hs)"
  define r where "r = mean (drop (length hs div 2) hs)"
  have b: "sum_list (take (length hs div 2) hs) / real (length hs div 2) = b"
    by (simp add: b_def mean_def min_def)
  have r: "sum_list (drop (length hs div 2) hs) / real (length hs - length hs div 2) = r"
    by (simp add: r_def mean_def)
  have alert: "hrv_drop_alert hs = (if 0 < b \<and> 0.20 < (b - r) / b then [HRVDropped] else [])"
    by (simp only: hrv_drop_alert_def Let_def b r True if_True)
  have spec: "spec_hrv_drop hs = (0.20 * b < b - r)"
    by (simp only: spec_hrv_drop_def Let_def b_def r_def)
  show ?thesis
  proof (cases "0 < b")
    case pos: True
    then have "(0.20 < (b - r) / b) = (0.20 * b < b - r)" by (rule pos_less_divide_eq)
    with pos True show ?thesis unfolding alert spec b_def[symmetric] by simp
  next
    case False
    with True show ?thesis unfolding alert b_def[symmetric] by simp
  qed
qed

text \<open>On HRV values that are all non-negative the positivity guard changes nothing.\<close>

lemma hrv_drop_alert_nonneg:
  assumes "\<forall>x \<in> set hs. 0 \<le> x" "1 < length hs"
  shows "HRVDropped \<in> set (hrv_drop_alert hs) \<longleftrightarrow> spec_hrv_drop hs"
proof -
  let ?k = "length hs div 2"
  have "0 \<le> sum_list (take ?k hs)" "0 \<le> sum_list (drop ?k hs)"
    using assms(1) by (auto intro!: sum_list_nonneg dest: in_set_takeD in_set_dropD)
  then have b: "0 \<le> mean (take ?k hs)" "0 \<le> mean (drop ?k hs)"
    by (simp_all add: mean_def)
  have "spec_hrv_drop hs \<Longrightarrow> 0 < mean (take ?k hs)"
    using b by (auto simp: spec_hrv_drop_def Let_def less_le)
  then show ?thesis using assms(2) hrv_drop_alert_iff[of hs] by auto
qed




lemma sedentary_alert_iff: "VeryLowActivity \<in> set (sedentary_alert t) \<longleftrightarrow> t < 120"
  by (auto simp: sedentary_alert_def Let_def)

text \<open>
  Claim C5. For every non-empty batch the total of active minutes is the sum of
  activeMinutes over all samples, and the low-activity alert is emitted if and only if
  that total is strictly below 120, which is the source's test
  \<open>(24 * 60 - total) / 60 > 22\<close>.
\<close>

theorem sedentary_alert_rule:
  assumes "metrics request \<noteq> []"
  shows "map_sum id total_active_minutes (analyze_health request)
           = Inr (sum_list (map HealthMetric.activeMinutes (metrics request)))
       \<and> map_sum id (\<lambda>a. VeryLowActivity \<in> set (alerts a)) (analyze_health request)
           = Inr (sum_list (map HealthMetric.activeMinutes (metrics request)) < 120)
       \<and> map_sum id (\<lambda>a. VeryLowActivity \<in> set (alerts a)) (analyze_health request)
           = map_sum id (\<lambda>a. 22 < (24 * 60 - real_of_int (total_active_minutes a)) / 60)
               (analyze_health request)"
  using assms
  by (simp add: analyze_health_def Let_def sedentary_alert_iff)

theorem sedentary_alert_rule_witness:
  "metrics (batch [sample 50 60 None, sample 50 59 None]) \<noteq> []
   \<and> map_sum id (\<lambda>a. VeryLowActivity \<in> set (alerts a))
        (analyze_health (batch [sample 50 60 None, sample 50 59 None])) = Inr True
   \<and> metrics (batch [sample 50 60 None, sample 50 60 None]) \<noteq> []
   \<and> map_sum id (\<lambda>a. VeryLowActivity \<in> set (alerts a))
        (analyze_health (batch [sample 50 60 None, sample 50 60 None])) = Inr False"
  using sedentary_alert_rule[of "batch [sample 50 60 None, sample 50 59 None]"]
    sedentary_alert_rule[of "batch [sample 50 60 None, sample 50 60 None]"]
  by (simp add: batch_def sample_def)

text \<open>
  The low-oxygen rule of the source: the average is present, is not zero, and is below 94.
\<close>

lemma spo2_alert_iff:
  "LowBloodOxygen v \<in> set (spo2_alert av) \<longleftrightarrow> av = Some v \<and> v \<noteq> 0 \<and> v < 94"
  by (auto simp: spo2_alert_def truthy_def split: option.splits)

text \<open>
  On every non-empty batch the low-oxygen alert carries the average of the spo2 values
  that are present, and it is emitted exactly when that average exists, is not zero and
  is below 94; with no spo2 value at all the average is absent and no such alert is
  emitted.
\<close>

lemma low_spo2_alert_rule:
  assumes "metrics request \<noteq> []"
  shows "map_sum id (\<lambda>a. LowBloodOxygen v \<in> set (alerts a)) (analyze_health request) =
           Inr (List.map_filter HealthMetric.spo2 (metrics request) \<noteq> []
                \<and> v = mean (List.map_filter HealthMetric.spo2 (metrics request))
                \<and> v \<noteq> 0 \<and> v < 94)"
    and "List.map_filter HealthMetric.spo2 (metrics request) = [] \<Longrightarrow>
           map_sum id avg_spo2 (analyze_health request) = Inr None"
  using assms by (auto simp: analyze_health_def Let_def spo2_alert_iff mean_def)

text \<open>
  Claim C6 at a batch whose only sample has spo2 = 0. The average SpO2 is present and
  equal to 0, which is below 94, but the source tests the average for truth before
  comparing it, and 0.0 is false: no alert is emitted and the response reports the
  average as absent.
\<close>

theorem low_spo2_zero_average:
  "map_sum id avg_spo2 (analyze_health (batch [sample 50 120 (Some 0)])) = Inr (Some 0)
   \<and> map_sum id alerts (analyze_health (batch [sample 50 120 (Some 0)])) = Inr []
   \<and> map_sum id (avgSpO2 \<circ> dailyStats) (analyze_health (batch [sample 50 120 (Some 0)]))
       = Inr None"
  by (simp add: analyze_health_eval dailyStats_def)

section \<open>Samples of the simulator in the analysis\<close>

lemma sum_list_bounds:
  fixes xs :: "real list"
  assumes "\<forall>x \<in> set xs. lo \<le> x \<and> x \<le> hi"
  shows "lo * real (length xs) \<le> sum_list xs \<and> sum_list xs \<le> hi * real (length xs)"
  using assms by (induction xs) (auto simp: algebra_simps)

lemma mean_bounds:
  assumes "xs \<noteq> []" "\<forall>x \<in> set xs. lo \<le> x \<and> x \<le> hi"
  shows "lo \<le> mean xs \<and> mean xs \<le> hi"
proof -
  have "0 < real (length xs)" using assms(1) by simp
  then show ?thesis using sum_list_bounds[OF assms(2)]
    by (simp add: mean_def pos_le_divide_eq pos_divide_le_eq)
qed

lemma map_filter_all_Some:
  assumes "\<forall>m \<in> set ms. \<exists>v. f m = Some v \<and> P v"
  shows "length (List.map_filter f ms) = length ms \<and> (\<forall>x \<in> set (List.map_filter f ms). P x)"
  using assms by (induction ms) (auto simp: List.map_filter_simps)

text \<open>
  Claim C10. Every sample returned by \<^verbatim>\<open>generate_metrics\<close> carries a spo2 value, for every
  clock time and every draw. Hence, on a non-empty batch whose samples all carry the spo2
  of some generated sample, the analysis never takes its no-spo2 branch: the average SpO2
  is present, lies in [94, 100], and is reported in the response.
\<close>

theorem generated_spo2_present:
  "(\<exists>v. Metrics.spo2 (generate_metrics self current_time rnd) = Some v)
   \<and> (metrics request \<noteq> []
        \<and> (\<forall>m \<in> set (metrics request). \<exists>sim ct draws.
              HealthMetric.spo2 m = Metrics.spo2 (generate_metrics sim ct draws))
      \<longrightarrow> (\<exists>v. map_sum id avg_spo2 (analyze_health request) = Inr (Some v)
              \<and> 94 \<le> v \<and> v \<le> 100
              \<and> map_sum id (avgSpO2 \<circ> dailyStats) (analyze_health request)
                   = Inr (Some (py_round 1 v))))"
proof (intro conjI impI)
  show "\<exists>v. Metrics.spo2 (generate_metrics self current_time rnd) = Some v"
    using generate_metrics_spo2[of self current_time rnd] by blast
next
  assume a: "metrics request \<noteq> []
        \<and> (\<forall>m \<in> set (metrics request). \<exists>sim ct draws.
              HealthMetric.spo2 m = Metrics.spo2 (generate_metrics sim ct draws))"
  let ?vs = "List.map_filter HealthMetric.spo2 (metrics request)"
  have "\<forall>m \<in> set (metrics request). \<exists>v. HealthMetric.spo2 m = Some v \<and> (94 \<le> v \<and> v \<le> 100)"
    using a generate_metrics_spo2 by metis
  from map_filter_all_Some[OF this]
  have len: "length ?vs = length (metrics request)" and rng: "\<forall>x \<in> set ?vs. 94 \<le> x \<and> x \<le> 100"
    by simp_all
  have ne: "?vs \<noteq> []" using a len by auto
  have m: "94 \<le> mean ?vs \<and> mean ?vs \<le> 100" using mean_bounds[OF ne rng] .
  have avg: "map_sum id avg_spo2 (analyze_health request) = Inr (Some (mean ?vs))"
    using a ne by (simp add: analyze_health_def Let_def mean_def)
  have nz: "mean ?vs \<noteq> 0" using m by auto
  obtain r where r: "analyze_health request = Inr r" "avg_spo2 r = Some (mean ?vs)"
    using a ne by (simp add: analyze_health_def Let_def mean_def)
  have rep: "map_sum id (avgSpO2 \<circ> dailyStats) (analyze_health request)
               = Inr (Some (py_round 1 (mean ?vs)))"
    using r nz by (simp add: dailyStats_def truthy_def)
  show "\<exists>v. map_sum id avg_spo2 (analyze_health request) = Inr (Some v)
              \<and> 94 \<le> v \<and> v \<le> 100
              \<and> map_sum id (avgSpO2 \<circ> dailyStats) (analyze_health request)
                   = Inr (Some (py_round 1 v))"
    using avg rep m by blast
qed

theorem generated_spo2_present_witness:
  "Metrics.spo2 (generate_metrics (init ''u1'' (clock 0 0)) (clock 10 0) no_noise) = Some 97
   \<and> metrics (batch [sample 50 1 (Some 97)]) \<noteq> []
   \<and> HealthMetric.spo2 (sample 50 1 (Some 97))
       = Metrics.spo2 (generate_metrics (init ''u1'' (clock 0 0)) (clock 10 0) no_noise)
   \<and> map_sum id avg_spo2 (analyze_health (batch [sample 50 1 (Some 97)])) = Inr (Some 97)"
proof -
  have g: "Metrics.spo2 (generate_metrics (init ''u1'' (clock 0 0)) (clock 10 0) no_noise)
             = Some 97"
    by (simp add: generate_metrics_def init_def clock_def no_noise_def get_time_of_day_factor_def
        py_round_def round_half_even_def py_int_def INTERVAL_MINUTES_def Let_def)
  have h: "metrics (batch [sample 50 1 (Some 97)]) \<noteq> []
        \<and> (\<forall>m \<in> set (metrics (batch [sample 50 1 (Some 97)])). \<exists>sim ct draws.
              HealthMetric.spo2 m = Metrics.spo2 (generate_metrics sim ct draws))"
  proof -
    have "\<exists>sim ct draws. Some 97 = Metrics.spo2 (generate_metrics sim ct draws)"
      using g[symmetric] by blast
    then show ?thesis by (simp add: batch_def sample_def)
  qed
  have s: "map_sum id avg_spo2 (analyze_health (batch [sample 50 1 (Some 97)])) = Inr (Some 97)"
    using generated_spo2_present
      [of "init ''u1'' (clock 0 0)" "clock 10 0" no_noise "batch [sample 50 1 (Some 97)]"] h
    by (simp add: analyze_health_def batch_def sample_def List.map_filter_def Let_def)
  show ?thesis using g s by (simp add: batch_def sample_def)
qed

end
